theory Spec2Isabelle
  imports Complex_Main
begin

section \<open>Configuration (config.py)\<close>

text \<open>
  The \<open>Settings\<close> class, restricted to the entries the services read. Python dictionaries
  are maps; Python integers are \<open>int\<close>. Every field can be overridden from the process
  environment, so the services below take the settings as an argument; \<open>settings\<close> is the
  instance built from the defaults written in config.py.
\<close>

record Settings =
  OPERATION_MODEL_MAP :: "string \<rightharpoonup> string"
  MAX_INPUT_CHARS :: "string \<rightharpoonup> int"
  MAX_OUTPUT_TOKENS :: "string \<rightharpoonup> int"
  DEFAULT_DAILY_LIMIT :: int

definition settings :: Settings where
  "settings = \<lparr>
     OPERATION_MODEL_MAP = map_of
       [(''summarize'', ''qwen-summarize''),
        (''translate'', ''qwen-translate''),
        (''classify'', ''qwen-classify'')],
     MAX_INPUT_CHARS = map_of
       [(''summarize'', 8000), (''translate'', 4000), (''classify'', 2000)],
     MAX_OUTPUT_TOKENS = map_of
       [(''summarize'', 512), (''translate'', 512), (''classify'', 64)],
     DEFAULT_DAILY_LIMIT = 1000 \<rparr>"

section \<open>The quota ledger (database.py)\<close>

text \<open>
  Two tables. \<open>operation_limits\<close> has a unique \<open>operation\<close> column, so it is a map from
  the operation name to its \<open>daily_limit\<close>. \<open>usage_log\<close> is read and written only through
  the pair (operation, log_date), and a row is inserted only when the lookup for that pair
  found none, so it is a map from that pair to the two counters of the row. A calendar
  date is its ordinal number.
\<close>

type_synonym date = nat

record UsageLog =
  request_count :: int
  total_tokens :: int

record database =
  operation_limits :: "string \<rightharpoonup> int"
  usage_log :: "string \<times> date \<rightharpoonup> UsageLog"

section \<open>Exceptions\<close>

text \<open>
  Every exception a modelled function can raise is a value. \<open>OrchestrationError\<close> carries
  a message in the source; the model keeps the data the message is built from.
\<close>

datatype orchestration_message =
    NoModelConfigured string
  | InputExceedsHardLimit string nat int
  | InferenceError

datatype error =
    LimitExceededError string int int
  | OrchestrationError orchestration_message
  | AttributeError
  | ValueError
  | TypeError
  | KeyError
  | IndexError
  | JSONDecodeError
  | LoadFailure
  | GenerationFailure
  | DatabaseFailure

section \<open>LimitService (limit\_service.py)\<close>

definition get_daily_limit :: "Settings \<Rightarrow> database \<Rightarrow> string \<Rightarrow> int" where
  "get_daily_limit cfg db operation =
     (case operation_limits db operation of
        Some row \<Rightarrow> row
      | None \<Rightarrow> DEFAULT_DAILY_LIMIT cfg)"

text \<open>
  \<open>_get_or_create_usage\<close> returns the row for (operation, today), inserting one with both
  counters 0 when there is none; the result is the row and the session's view of the
  table.
\<close>

definition get_or_create_usage ::
  "database \<Rightarrow> string \<Rightarrow> date \<Rightarrow> UsageLog \<times> database" where
  "get_or_create_usage db operation today =
     (case usage_log db (operation, today) of
        Some usage \<Rightarrow> (usage, db)
      | None \<Rightarrow>
          (let usage = \<lparr> request_count = 0, total_tokens = 0 \<rparr>
           in (usage, db \<lparr> usage_log := (usage_log db)((operation, today) \<mapsto> usage) \<rparr>)))"

text \<open>
  \<open>check_and_increment\<close>: \<open>today\<close> is the reading of \<open>date.today()\<close>. The early return for
  a limit of 0 gives the database back as it was. When the limit is reached the function
  raises before \<open>session.commit()\<close>, so the row that \<open>_get_or_create_usage\<close> may have
  flushed is never committed: the error result carries no database.
\<close>

definition check_and_increment ::
  "Settings \<Rightarrow> database \<Rightarrow> string \<Rightarrow> date \<Rightarrow> int \<Rightarrow> error + database" where
  "check_and_increment cfg db operation today tokens_used =
     (let daily_limit = get_daily_limit cfg db operation in
      if daily_limit = 0 then Inr db
      else
        (case get_or_create_usage db operation today of
           (usage, db') \<Rightarrow>
             if request_count usage \<ge> daily_limit
             then Inl (LimitExceededError operation (request_count usage) daily_limit)
             else Inr (db' \<lparr> usage_log := (usage_log db')((operation, today) \<mapsto>
                    usage \<lparr> request_count := request_count usage + 1,
                            total_tokens := total_tokens usage + tokens_used \<rparr>) \<rparr>)))"

definition record_tokens :: "database \<Rightarrow> string \<Rightarrow> date \<Rightarrow> int \<Rightarrow> database" where
  "record_tokens db operation today tokens =
     (case get_or_create_usage db operation today of
        (usage, db') \<Rightarrow>
          db' \<lparr> usage_log := (usage_log db')((operation, today) \<mapsto>
                 usage \<lparr> total_tokens := total_tokens usage + tokens \<rparr>) \<rparr>)"

text \<open>
  \<open>update_limit\<close> is an SQL \<open>UPDATE ... WHERE operation = ...\<close>: it changes the row of the
  operation when there is one and nothing otherwise.
\<close>

definition update_limit :: "database \<Rightarrow> string \<Rightarrow> int \<Rightarrow> database" where
  "update_limit db operation daily_limit =
     (case operation_limits db operation of
        None \<Rightarrow> db
      | Some _ \<Rightarrow> db \<lparr> operation_limits := (operation_limits db)(operation \<mapsto> daily_limit) \<rparr>)"

subsection \<open>Notions used to state the properties of the ledger\<close>

text \<open>The number of requests recorded for an operation on a day: 0 when there is no row.\<close>

definition requests_recorded :: "database \<Rightarrow> string \<Rightarrow> date \<Rightarrow> int" where
  "requests_recorded db operation day =
     (case usage_log db (operation, day) of None \<Rightarrow> 0 | Some usage \<Rightarrow> request_count usage)"

text \<open>
  \<open>n\<close> calls of \<open>check_and_increment\<close> one after the other, each on the database the
  previous one committed; the sequence stops at the first call that raises, so the result
  is a database only if every one of the \<open>n\<close> calls returned normally.
\<close>

fun check_and_increment_calls ::
  "Settings \<Rightarrow> string \<Rightarrow> date \<Rightarrow> int \<Rightarrow> nat \<Rightarrow> database \<Rightarrow> error + database" where
  "check_and_increment_calls cfg operation today tokens_used 0 db = Inr db"
| "check_and_increment_calls cfg operation today tokens_used (Suc n) db =
     (case check_and_increment cfg db operation today tokens_used of
        Inl e \<Rightarrow> Inl e
      | Inr db' \<Rightarrow> check_and_increment_calls cfg operation today tokens_used n db')"

text \<open>
  The quota invariant of the specification: no row of the usage table counts more
  requests than the daily limit of its operation, unless that limit is 0.
\<close>

definition quota_invariant :: "Settings \<Rightarrow> database \<Rightarrow> bool" where
  "quota_invariant cfg db \<longleftrightarrow>
     (\<forall>operation day usage. usage_log db (operation, day) = Some usage \<longrightarrow>
        get_daily_limit cfg db operation = 0 \<or>
        request_count usage \<le> get_daily_limit cfg db operation)"

section \<open>ModelRegistry (model\_registry.py)\<close>

text \<open>
  A \<open>LoadedModel\<close> holds the tokenizer and the model, which are opaque objects of the
  backend: the model names each by a number. \<open>loaded_at\<close> is a reading of the clock.
\<close>

record LoadedModel =
  folder :: string
  tokenizer :: nat
  model :: nat
  device :: string
  loaded_at :: rat

record ModelRegistry =
  registry :: "string \<rightharpoonup> LoadedModel"
  locks :: "string set"

text \<open>\<open>_get_lock\<close> creates the lock of a folder on first use.\<close>

definition get_lock :: "ModelRegistry \<Rightarrow> string \<Rightarrow> ModelRegistry" where
  "get_lock reg model_folder = reg \<lparr> locks := insert model_folder (locks reg) \<rparr>"

text \<open>
  \<open>get_or_load\<close>, for a call that runs from its first line to its last with no other
  call in between. \<open>load\<close> is \<open>ModelLoader.load\<close>, which reads the file system and
  either raises or returns (tokenizer, model, device); \<open>now\<close> is the reading of
  \<open>time.time()\<close>. The registry is returned in both outcomes: the lock created before the
  load stays when the load raises.
\<close>

definition get_or_load ::
  "(string \<Rightarrow> error + nat \<times> nat \<times> string) \<Rightarrow> rat \<Rightarrow> ModelRegistry \<Rightarrow> string
     \<Rightarrow> ModelRegistry \<times> (error + LoadedModel)" where
  "get_or_load load now reg model_folder =
     (case registry reg model_folder of
        Some loaded \<Rightarrow> (reg, Inr loaded)
      | None \<Rightarrow>
          (let reg1 = get_lock reg model_folder in
           case registry reg1 model_folder of
             Some loaded \<Rightarrow> (reg1, Inr loaded)
           | None \<Rightarrow>
               (case load model_folder of
                  Inl e \<Rightarrow> (reg1, Inl e)
                | Inr (tok, mdl, dev) \<Rightarrow>
                    (let loaded = \<lparr> folder = model_folder, tokenizer = tok, model = mdl,
                                     device = dev, loaded_at = now \<rparr>
                     in (reg1 \<lparr> registry := (registry reg1)(model_folder \<mapsto> loaded) \<rparr>,
                         Inr loaded)))))"

definition is_loaded :: "ModelRegistry \<Rightarrow> string \<Rightarrow> bool" where
  "is_loaded reg model_folder \<longleftrightarrow> registry reg model_folder \<noteq> None"

definition unload :: "ModelRegistry \<Rightarrow> string \<Rightarrow> ModelRegistry \<times> bool" where
  "unload reg model_folder =
     (case registry reg model_folder of
        None \<Rightarrow> (reg, False)
      | Some _ \<Rightarrow> (reg \<lparr> registry := (registry reg)(model_folder := None) \<rparr>, True))"

section \<open>Prompt builders (inference\_engine.py)\<close>

text \<open>The decimal text that an f-string gives for an integer.\<close>

fun str_nat :: "nat \<Rightarrow> string" where
  "str_nat n =
     (if n < 10 then [''0123456789'' ! n]
      else str_nat (n div 10) @ [''0123456789'' ! (n mod 10)])"

definition str_int :: "int \<Rightarrow> string" where
  "str_int i = (if i < 0 then CHR ''-'' # str_nat (nat (- i)) else str_nat (nat i))"

fun join :: "string \<Rightarrow> string list \<Rightarrow> string" where
  "join sep [] = []"
| "join sep [x] = x"
| "join sep (x # y # ys) = x @ sep @ join sep (y # ys)"

definition build_summarize_prompt :: "string \<Rightarrow> int \<Rightarrow> string \<Rightarrow> string" where
  "build_summarize_prompt txt max_sents lang =
     ''You are a professional summarization assistant.\<newline>'' @
     ''Summarize the following text in exactly '' @ str_int max_sents @
     '' concise sentence(s). '' @
     ''Write the summary in language code '' @ [CHR 0x27] @ lang @ [CHR 0x27] @ ''. '' @
     ''Output only the summary text, nothing else.\<newline>\<newline>'' @
     ''TEXT:\<newline>'' @ txt @ ''\<newline>\<newline>SUMMARY:''"

definition build_translate_prompt :: "string \<Rightarrow> string \<Rightarrow> string \<Rightarrow> string" where
  "build_translate_prompt txt source_lang target_lang =
     ''You are a professional translation assistant.\<newline>'' @
     ''Translate the following text from '' @ [CHR 0x27] @ source_lang @ [CHR 0x27] @
     '' to '' @ [CHR 0x27] @ target_lang @ [CHR 0x27] @ ''. '' @
     ''Output only the translated text, nothing else.\<newline>\<newline>'' @
     ''TEXT:\<newline>'' @ txt @ ''\<newline>\<newline>TRANSLATION:''"

definition build_classify_prompt :: "string \<Rightarrow> string list \<Rightarrow> string" where
  "build_classify_prompt txt cats =
     (let category_list = join '', '' (map (\<lambda>c. [CHR 0x22] @ c @ [CHR 0x22]) cats) in
      ''You are a text classification assistant.\<newline>'' @
      ''Classify the following text into exactly one of these categories: '' @
      category_list @ ''.\<newline>'' @
      ''Respond with a JSON object only, in this exact format:\<newline>'' @
      ''{'' @ [CHR 0x22] @ ''label'' @ [CHR 0x22] @ '': '' @
      [CHR 0x22] @ ''<chosen_category>'' @ [CHR 0x22] @ '', '' @
      [CHR 0x22] @ ''confidence'' @ [CHR 0x22] @ '': <0.0-1.0>}\<newline>\<newline>'' @
      ''TEXT:\<newline>'' @ txt @ ''\<newline>\<newline>CLASSIFICATION:'')"

section \<open>The classify output parser (orchestration\_service.py)\<close>

text \<open>
  What \<open>json.loads\<close> returns: \<open>None\<close>, a \<open>bool\<close>, an \<open>int\<close>, a \<open>float\<close>, a \<open>str\<close>, a list or
  a dictionary (the pairs of its keys and values). A \<open>float\<close> is the rational number it
  denotes, and the arithmetic on floats below is exact arithmetic on these numbers:
  rounding, \<open>NaN\<close> and the infinities are outside the model.
\<close>

datatype json_value =
    JNull
  | JBool bool
  | JInt int
  | JFloat rat
  | JString string
  | JArray "json_value list"
  | JObject "(string \<times> json_value) list"

datatype json_loads_outcome = Loaded json_value | NotJSON

text \<open>
  The functions of the Python library that the parser calls and that are no code of this
  repository are arguments of the model:
  \<^item> \<open>str_lower\<close> is \<open>str.lower\<close>;
  \<^item> \<open>str_of_value\<close> is \<open>str\<close> of a value that is not a \<open>str\<close>;
  \<^item> \<open>float_of_str\<close> is \<open>float\<close> of a \<open>str\<close>, \<open>None\<close> when it raises \<open>ValueError\<close>;
  \<^item> \<open>json_loads_cleaned\<close> is \<open>json.loads\<close> of the raw text after the four \<open>strip\<close>
    calls, \<open>NotJSON\<close> when it raises \<open>JSONDecodeError\<close>.
\<close>

record pylib =
  str_lower :: "string \<Rightarrow> string"
  str_of_value :: "json_value \<Rightarrow> string"
  float_of_str :: "string \<Rightarrow> rat option"
  json_loads_cleaned :: "string \<Rightarrow> json_loads_outcome"

text \<open>\<open>dict.get(key, default)\<close>.\<close>

definition dict_get :: "(string \<times> json_value) list \<Rightarrow> string \<Rightarrow> json_value \<Rightarrow> json_value" where
  "dict_get entries key dflt =
     (case map_of entries key of None \<Rightarrow> dflt | Some v \<Rightarrow> v)"

text \<open>\<open>str(v)\<close>.\<close>

definition to_str :: "pylib \<Rightarrow> json_value \<Rightarrow> string" where
  "to_str lib v = (case v of JString s \<Rightarrow> s | _ \<Rightarrow> str_of_value lib v)"

text \<open>
  \<open>float(v)\<close>: a number (a \<open>bool\<close> is one) converts, a \<open>str\<close> is parsed or raises
  \<open>ValueError\<close>, anything else raises \<open>TypeError\<close>.
\<close>

definition to_float :: "pylib \<Rightarrow> json_value \<Rightarrow> error + rat" where
  "to_float lib v =
     (case v of
        JInt i \<Rightarrow> Inr (of_int i)
      | JFloat r \<Rightarrow> Inr r
      | JBool b \<Rightarrow> Inr (if b then 1 else 0)
      | JString s \<Rightarrow> (case float_of_str lib s of None \<Rightarrow> Inl ValueError | Some r \<Rightarrow> Inr r)
      | _ \<Rightarrow> Inl TypeError)"

text \<open>
  The body of the \<open>try\<close> block of \<open>_parse_classify_output\<close>, from the outcome of
  \<open>json.loads(cleaned)\<close> on: the label and the confidence it ends with, or the exception
  it raises. \<open>data.get\<close> raises \<open>AttributeError\<close> when \<open>data\<close> is no dictionary;
  \<open>categories[0]\<close> raises \<open>IndexError\<close> on an empty list; in \<open>lower_map\<close> a later
  category replaces an earlier one with the same lower-case form.
\<close>

definition classify_try_block ::
  "pylib \<Rightarrow> json_loads_outcome \<Rightarrow> string list \<Rightarrow> error + string \<times> rat" where
  "classify_try_block lib outcome cats =
     (case outcome of
        NotJSON \<Rightarrow> Inl JSONDecodeError
      | Loaded data \<Rightarrow>
          (case data of
             JObject entries \<Rightarrow>
               (case cats of
                  [] \<Rightarrow> Inl IndexError
                | first # _ \<Rightarrow>
                    (let lbl = to_str lib (dict_get entries ''label'' (JString first)) in
                     case to_float lib (dict_get entries ''confidence'' (JFloat (1 / 2))) of
                       Inl e \<Rightarrow> Inl e
                     | Inr parsed \<Rightarrow>
                         (let conf = max 0 (min 1 parsed);
                              lower_map = map_of (rev (map (\<lambda>c. (str_lower lib c, c)) cats))
                          in case lower_map (str_lower lib lbl) of
                               None \<Rightarrow> Inr (first, 1 / 2)
                             | Some canonical \<Rightarrow> Inr (canonical, conf))))
           | _ \<Rightarrow> Inl AttributeError))"

text \<open>
  \<open>_parse_classify_output\<close> after \<open>json.loads\<close>: the \<open>except\<close> clause catches
  \<open>JSONDecodeError\<close>, \<open>KeyError\<close> and \<open>TypeError\<close> and falls back to the first category
  with confidence 0.5; any other exception leaves the function. Then the scores: every
  category gets \<open>remaining\<close>, and the label gets the confidence.
\<close>

definition parse_classify_loaded ::
  "pylib \<Rightarrow> json_loads_outcome \<Rightarrow> string list
     \<Rightarrow> error + string \<times> rat \<times> (string \<rightharpoonup> rat)" where
  "parse_classify_loaded lib outcome cats =
     (let decided =
        (case classify_try_block lib outcome cats of
           Inr r \<Rightarrow> Inr r
         | Inl e \<Rightarrow>
             if e = JSONDecodeError \<or> e = KeyError \<or> e = TypeError
             then (case cats of [] \<Rightarrow> Inl IndexError | first # _ \<Rightarrow> Inr (first, 1 / 2))
             else Inl e)
      in case decided of
           Inl e \<Rightarrow> Inl e
         | Inr (lbl, conf) \<Rightarrow>
             (let remaining = (1 - conf) / of_int (max (int (length cats) - 1) 1);
                  scores = (map_of (map (\<lambda>c. (c, remaining)) cats))(lbl \<mapsto> conf)
              in Inr (lbl, conf, scores)))"

definition parse_classify_output ::
  "pylib \<Rightarrow> string \<Rightarrow> string list \<Rightarrow> error + string \<times> rat \<times> (string \<rightharpoonup> rat)" where
  "parse_classify_output lib raw cats =
     parse_classify_loaded lib (json_loads_cleaned lib raw) cats"


section \<open>Requests and responses (request\_schema.py, response\_schema.py)\<close>

text \<open>
  The request objects as the orchestrator receives them. The field \<open>text\<close> of the source
  is \<open>text_field\<close> here. The length of a text is the length of its list of characters.
\<close>

record BaseOperationRequest =
  request_id :: "string option"

record SummarizeRequest = BaseOperationRequest +
  text_field :: string
  max_sentences :: int
  language :: string

record TranslateRequest = BaseOperationRequest +
  text_field :: string
  source_language :: string
  target_language :: string

record ClassifyRequest = BaseOperationRequest +
  text_field :: string
  categories :: "string list"

text \<open>
  \<open>OperationMeta\<close> without \<open>execution_time_ms\<close> and \<open>timestamp\<close>, which are readings of
  the clock; its field \<open>operation\<close> is \<open>operation_field\<close> and its \<open>request_id\<close> is
  \<open>meta_request_id\<close>.
\<close>

record OperationMeta =
  operation_field :: string
  model_used :: string
  input_chars :: nat
  output_tokens :: int
  meta_request_id :: "string option"

record SummarizeResponse =
  summary :: string
  sentence_count :: nat
  meta :: OperationMeta

record TranslateResponse =
  translated_text :: string
  source_language :: string
  target_language :: string
  meta :: OperationMeta

record ClassifyResponse =
  label :: string
  confidence :: rat
  scores :: "string \<rightharpoonup> rat"
  meta :: OperationMeta

section \<open>OrchestrationService (orchestration\_service.py)\<close>

definition get_model_folder :: "Settings \<Rightarrow> string \<Rightarrow> error + string" where
  "get_model_folder cfg operation =
     (case OPERATION_MODEL_MAP cfg operation of
        None \<Rightarrow> Inl (OrchestrationError (NoModelConfigured operation))
      | Some model_folder \<Rightarrow>
          if model_folder = [] then Inl (OrchestrationError (NoModelConfigured operation))
          else Inr model_folder)"

definition validate_input_length :: "Settings \<Rightarrow> string \<Rightarrow> string \<Rightarrow> error + unit" where
  "validate_input_length cfg operation txt =
     (let max_chars = (case MAX_INPUT_CHARS cfg operation of None \<Rightarrow> 0 | Some m \<Rightarrow> m) in
      if max_chars \<noteq> 0 \<and> int (length txt) > max_chars
      then Inl (OrchestrationError (InputExceedsHardLimit operation (length txt) max_chars))
      else Inr ())"

text \<open>
  The sentence count of a summary: the pieces of \<open>generated_text.split(".")\<close> that
  \<open>strip\<close> does not empty. The white space is that of the characters below 256.
\<close>

fun split_on :: "char \<Rightarrow> string \<Rightarrow> string list" where
  "split_on d [] = [[]]"
| "split_on d (c # cs) =
     (if c = d then [] # split_on d cs
      else (case split_on d cs of
              [] \<Rightarrow> [[c]]
            | w # ws \<Rightarrow> (c # w) # ws))"

definition is_space :: "char \<Rightarrow> bool" where
  "is_space c \<longleftrightarrow>
     (of_char c :: nat) \<in> set [9, 10, 11, 12, 13, 28, 29, 30, 31, 32, 133, 160]"

definition count_sentences :: "string \<Rightarrow> nat" where
  "count_sentences generated_text =
     length (filter (\<lambda>s. \<exists>c \<in> set s. \<not> is_space c) (split_on (CHR ''.'') generated_text))"

text \<open>
  What a request finds outside the orchestrator. The platform is the committed content of
  the database and the registry of loaded models. The environment of one request is:
  the two readings of \<open>date.today()\<close>, one in \<open>check_and_increment\<close> and one in
  \<open>record_tokens\<close>; \<open>ModelLoader.load\<close> and the clock; \<open>InferenceEngine.generate\<close>, which
  returns the generated text and the token count or raises; the exception, if any, that
  the database session raises inside \<open>record_tokens\<close>; and the Python library. Log lines
  are not part of the model.
\<close>

record platform =
  ledger :: database
  model_registry :: ModelRegistry

record environment =
  today_at_admission :: date
  today_at_accounting :: date
  model_loader :: "string \<Rightarrow> error + nat \<times> nat \<times> string"
  clock :: rat
  generate :: "LoadedModel \<Rightarrow> string \<Rightarrow> int \<Rightarrow> error + string \<times> int"
  accounting_failure :: "error option"
  library :: pylib

text \<open>
  The three pipelines. Each returns the platform it leaves behind together with the
  response or the exception that reaches the caller: what \<open>check_and_increment\<close>
  committed stays committed when a later step raises.
\<close>

definition summarize ::
  "Settings \<Rightarrow> environment \<Rightarrow> platform \<Rightarrow> SummarizeRequest
     \<Rightarrow> platform \<times> (error + SummarizeResponse)" where
  "summarize cfg env st request =
     (let operation = ''summarize'' in
      case validate_input_length cfg operation (SummarizeRequest.text_field request) of
        Inl e \<Rightarrow> (st, Inl e)
      | Inr _ \<Rightarrow>
     (case check_and_increment cfg (ledger st) operation (today_at_admission env) 0 of
        Inl e \<Rightarrow> (st, Inl e)
      | Inr db1 \<Rightarrow>
     (let st1 = st \<lparr> ledger := db1 \<rparr> in
      case get_model_folder cfg operation of
        Inl e \<Rightarrow> (st1, Inl e)
      | Inr model_folder \<Rightarrow>
     (case get_or_load (model_loader env) (clock env) (model_registry st1) model_folder of
        (reg2, Inl e) \<Rightarrow> (st1 \<lparr> model_registry := reg2 \<rparr>, Inl e)
      | (reg2, Inr loaded) \<Rightarrow>
     (let st2 = st1 \<lparr> model_registry := reg2 \<rparr> in
      case MAX_OUTPUT_TOKENS cfg operation of
        None \<Rightarrow> (st2, Inl KeyError)
      | Some max_tokens \<Rightarrow>
     (let prompt = build_summarize_prompt (SummarizeRequest.text_field request)
                     (max_sentences request) (language request) in
      case generate env loaded prompt max_tokens of
        Inl e \<Rightarrow> (st2, Inl (OrchestrationError InferenceError))
      | Inr (generated_text, token_count) \<Rightarrow>
     (case accounting_failure env of
        Some e \<Rightarrow> (st2, Inl e)
      | None \<Rightarrow>
          (st2 \<lparr> ledger := record_tokens (ledger st2) operation
                               (today_at_accounting env) token_count \<rparr>,
           Inr \<lparr> summary = generated_text,
                 sentence_count = count_sentences generated_text,
                 SummarizeResponse.meta =
                   \<lparr> operation_field = operation,
                     model_used = model_folder,
                     input_chars = length (SummarizeRequest.text_field request),
                     output_tokens = token_count,
                     meta_request_id = request_id request \<rparr> \<rparr>))))))))"

definition translate ::
  "Settings \<Rightarrow> environment \<Rightarrow> platform \<Rightarrow> TranslateRequest
     \<Rightarrow> platform \<times> (error + TranslateResponse)" where
  "translate cfg env st request =
     (let operation = ''translate'' in
      case validate_input_length cfg operation (TranslateRequest.text_field request) of
        Inl e \<Rightarrow> (st, Inl e)
      | Inr _ \<Rightarrow>
     (case check_and_increment cfg (ledger st) operation (today_at_admission env) 0 of
        Inl e \<Rightarrow> (st, Inl e)
      | Inr db1 \<Rightarrow>
     (let st1 = st \<lparr> ledger := db1 \<rparr> in
      case get_model_folder cfg operation of
        Inl e \<Rightarrow> (st1, Inl e)
      | Inr model_folder \<Rightarrow>
     (case get_or_load (model_loader env) (clock env) (model_registry st1) model_folder of
        (reg2, Inl e) \<Rightarrow> (st1 \<lparr> model_registry := reg2 \<rparr>, Inl e)
      | (reg2, Inr loaded) \<Rightarrow>
     (let st2 = st1 \<lparr> model_registry := reg2 \<rparr> in
      case MAX_OUTPUT_TOKENS cfg operation of
        None \<Rightarrow> (st2, Inl KeyError)
      | Some max_tokens \<Rightarrow>
     (let prompt = build_translate_prompt (TranslateRequest.text_field request)
                     (TranslateRequest.source_language request)
                     (TranslateRequest.target_language request) in
      case generate env loaded prompt max_tokens of
        Inl e \<Rightarrow> (st2, Inl (OrchestrationError InferenceError))
      | Inr (generated_text, token_count) \<Rightarrow>
     (case accounting_failure env of
        Some e \<Rightarrow> (st2, Inl e)
      | None \<Rightarrow>
          (st2 \<lparr> ledger := record_tokens (ledger st2) operation
                               (today_at_accounting env) token_count \<rparr>,
           Inr \<lparr> translated_text = generated_text,
                 TranslateResponse.source_language = TranslateRequest.source_language request,
                 TranslateResponse.target_language = TranslateRequest.target_language request,
                 TranslateResponse.meta =
                   \<lparr> operation_field = operation,
                     model_used = model_folder,
                     input_chars = length (TranslateRequest.text_field request),
                     output_tokens = token_count,
                     meta_request_id = request_id request \<rparr> \<rparr>))))))))"

text \<open>
  In \<open>classify\<close> the parser runs after \<open>record_tokens\<close>; an exception that leaves the
  parser reaches the caller with the tokens already recorded.
\<close>

definition classify ::
  "Settings \<Rightarrow> environment \<Rightarrow> platform \<Rightarrow> ClassifyRequest
     \<Rightarrow> platform \<times> (error + ClassifyResponse)" where
  "classify cfg env st request =
     (let operation = ''classify'' in
      case validate_input_length cfg operation (ClassifyRequest.text_field request) of
        Inl e \<Rightarrow> (st, Inl e)
      | Inr _ \<Rightarrow>
     (case check_and_increment cfg (ledger st) operation (today_at_admission env) 0 of
        Inl e \<Rightarrow> (st, Inl e)
      | Inr db1 \<Rightarrow>
     (let st1 = st \<lparr> ledger := db1 \<rparr> in
      case get_model_folder cfg operation of
        Inl e \<Rightarrow> (st1, Inl e)
      | Inr model_folder \<Rightarrow>
     (case get_or_load (model_loader env) (clock env) (model_registry st1) model_folder of
        (reg2, Inl e) \<Rightarrow> (st1 \<lparr> model_registry := reg2 \<rparr>, Inl e)
      | (reg2, Inr loaded) \<Rightarrow>
     (let st2 = st1 \<lparr> model_registry := reg2 \<rparr> in
      case MAX_OUTPUT_TOKENS cfg operation of
        None \<Rightarrow> (st2, Inl KeyError)
      | Some max_tokens \<Rightarrow>
     (let prompt = build_classify_prompt (ClassifyRequest.text_field request)
                     (categories request) in
      case generate env loaded prompt max_tokens of
        Inl e \<Rightarrow> (st2, Inl (OrchestrationError InferenceError))
      | Inr (generated_text, token_count) \<Rightarrow>
     (case accounting_failure env of
        Some e \<Rightarrow> (st2, Inl e)
      | None \<Rightarrow>
     (let st3 = st2 \<lparr> ledger := record_tokens (ledger st2) operation
                                  (today_at_accounting env) token_count \<rparr> in
      case parse_classify_output (library env) generated_text (categories request) of
        Inl e \<Rightarrow> (st3, Inl e)
      | Inr (lbl, conf, scrs) \<Rightarrow>
          (st3,
           Inr \<lparr> label = lbl,
                 confidence = conf,
                 scores = scrs,
                 ClassifyResponse.meta =
                   \<lparr> operation_field = operation,
                     model_used = model_folder,
                     input_chars = length (ClassifyRequest.text_field request),
                     output_tokens = token_count,
                     meta_request_id = request_id request \<rparr> \<rparr>)))))))))"

section \<open>Concrete inputs\<close>

text \<open>A ledger where \<open>classify\<close> has the daily limit 2 and nothing is recorded yet.\<close>

definition classify_limit_two :: database where
  "classify_limit_two =
     \<lparr> operation_limits = [''classify'' \<mapsto> 2], usage_log = Map.empty \<rparr>"

text \<open>
  A ledger where \<open>summarize\<close> has the daily limit 5 and five requests are recorded on
  day 0, as after five admitted requests.
\<close>

definition summarize_five_used :: database where
  "summarize_five_used =
     \<lparr> operation_limits = [''summarize'' \<mapsto> 5],
       usage_log = [(''summarize'', 0) \<mapsto> \<lparr> request_count = 5, total_tokens = 0 \<rparr>] \<rparr>"


text \<open>
  A library for the examples: \<open>str.lower\<close> on the letters A to Z, and a \<open>json.loads\<close> that
  reads one text, the object with the label \<open>Positive\<close> and the confidence 0.8. No example
  reaches \<open>str\<close> of a value that is not a string or \<open>float\<close> of a string.
\<close>

definition ascii_lower :: "char \<Rightarrow> char" where
  "ascii_lower c =
     (case map_of (zip ''ABCDEFGHIJKLMNOPQRSTUVWXYZ'' ''abcdefghijklmnopqrstuvwxyz'') c of
        None \<Rightarrow> c
      | Some l \<Rightarrow> l)"

definition positive_raw :: string where
  \<open>positive_raw = ''{"label": "Positive", "confidence": 0.8}''\<close>

definition positive_object :: json_value where
  "positive_object = JObject [(''label'', JString ''Positive''), (''confidence'', JFloat (4 / 5))]"

definition ascii_library :: pylib where
  "ascii_library =
     \<lparr> str_lower = map ascii_lower,
       str_of_value = (\<lambda>v. []),
       float_of_str = (\<lambda>s. None),
       json_loads_cleaned = (\<lambda>raw. if raw = positive_raw then Loaded positive_object else NotJSON) \<rparr>"

text \<open>
  A platform with an empty ledger and no model loaded, and an environment where every
  step works: it is day 0, the loader finds every model, and generation returns the text
  above with 12 tokens. In the second environment the database session raises inside
  \<open>record_tokens\<close>.
\<close>

definition fresh_platform :: platform where
  "fresh_platform =
     \<lparr> ledger = \<lparr> operation_limits = Map.empty, usage_log = Map.empty \<rparr>,
       model_registry = \<lparr> registry = Map.empty, locks = {} \<rparr> \<rparr>"

definition calm_environment :: environment where
  "calm_environment =
     \<lparr> today_at_admission = 0,
       today_at_accounting = 0,
       model_loader = (\<lambda>model_folder. Inr (1, 2, ''cpu'')),
       clock = 0,
       generate = (\<lambda>loaded prompt max_new_tokens. Inr (positive_raw, 12)),
       accounting_failure = None,
       library = ascii_library \<rparr>"

definition accounting_fails_environment :: environment where
  "accounting_fails_environment = calm_environment \<lparr> accounting_failure := Some DatabaseFailure \<rparr>"

text \<open>Settings in which no operation has a model.\<close>

definition unmapped_settings :: Settings where
  "unmapped_settings = settings \<lparr> OPERATION_MODEL_MAP := Map.empty \<rparr>"

text \<open>Requests: a text of \<open>n\<close> letters for each operation.\<close>

definition summarize_request :: "nat \<Rightarrow> SummarizeRequest" where
  "summarize_request n =
     \<lparr> request_id = None, SummarizeRequest.text_field = replicate n (CHR ''a''),
       max_sentences = 5, language = ''en'' \<rparr>"

definition translate_request :: "nat \<Rightarrow> TranslateRequest" where
  "translate_request n =
     \<lparr> request_id = None, TranslateRequest.text_field = replicate n (CHR ''a''),
       TranslateRequest.source_language = ''en'', TranslateRequest.target_language = ''fr'' \<rparr>"

definition classify_request :: "nat \<Rightarrow> ClassifyRequest" where
  "classify_request n =
     \<lparr> request_id = None, ClassifyRequest.text_field = replicate n (CHR ''a''),
       categories = [''positive'', ''negative''] \<rparr>"

section \<open>Properties of the ledger\<close>

lemma get_daily_limit_usage_update [simp]:
  "get_daily_limit cfg (db \<lparr> usage_log := u \<rparr>) operation = get_daily_limit cfg db operation"
  by (simp add: get_daily_limit_def)

lemma check_and_increment_limit_kept:
  assumes "check_and_increment cfg db operation today t = Inr db'"
  shows "operation_limits db' = operation_limits db"
  using assms
  by (auto simp: check_and_increment_def get_or_create_usage_def Let_def
           split: if_splits option.splits)

lemma check_and_increment_admits:
  assumes "get_daily_limit cfg db operation = N" and "N \<noteq> 0"
    and "requests_recorded db operation today < N"
  shows "\<exists>db'. check_and_increment cfg db operation today t = Inr db'
           \<and> get_daily_limit cfg db' operation = N
           \<and> requests_recorded db' operation today = requests_recorded db operation today + 1"
  using assms
  by (auto simp: check_and_increment_def get_or_create_usage_def Let_def
                 requests_recorded_def get_daily_limit_def
           split: option.splits)

lemma check_and_increment_rejects:
  assumes "get_daily_limit cfg db operation = N" and "N \<noteq> 0"
    and "requests_recorded db operation today \<ge> N"
  shows "check_and_increment cfg db operation today t
           = Inl (LimitExceededError operation (requests_recorded db operation today) N)"
  using assms
  by (auto simp: check_and_increment_def get_or_create_usage_def Let_def
                 requests_recorded_def
           split: option.splits)

lemma check_and_increment_calls_count:
  assumes "get_daily_limit cfg db operation = N" and "N \<noteq> 0"
    and "requests_recorded db operation today + int n \<le> N"
  shows "\<exists>db'. check_and_increment_calls cfg operation today t n db = Inr db'
           \<and> get_daily_limit cfg db' operation = N
           \<and> requests_recorded db' operation today = requests_recorded db operation today + int n"
  using assms
proof (induction n arbitrary: db)
  case 0
  then show ?case by simp
next
  case (Suc n)
  from Suc.prems have less: "requests_recorded db operation today < N" by simp
  from check_and_increment_admits [OF Suc.prems(1) Suc.prems(2) less, of t]
  obtain db1 where step: "check_and_increment cfg db operation today t = Inr db1"
    and lim1: "get_daily_limit cfg db1 operation = N"
    and cnt1: "requests_recorded db1 operation today = requests_recorded db operation today + 1"
    by blast
  from Suc.prems cnt1 have "requests_recorded db1 operation today + int n \<le> N" by simp
  from Suc.IH [OF lim1 Suc.prems(2) this]
  obtain db' where rest: "check_and_increment_calls cfg operation today t n db1 = Inr db'"
    and lim': "get_daily_limit cfg db' operation = N"
    and cnt': "requests_recorded db' operation today = requests_recorded db1 operation today + int n"
    by blast
  from step rest lim' cnt' cnt1 show ?case by simp
qed

text \<open>
  Claim C10. An operation with no row in \<open>operation_limits\<close> has the default daily limit
  of the settings, \<open>DEFAULT_DAILY_LIMIT\<close>, which is 1000 (and so not the 0 that means
  unlimited) in the settings of config.py; \<open>get_daily_limit\<close> is a total function of
  the operation name, so the lookup does not fail.
\<close>

theorem get_daily_limit_default:
  assumes "operation_limits db operation = None"
  shows "get_daily_limit cfg db operation = DEFAULT_DAILY_LIMIT cfg
       \<and> get_daily_limit settings db operation = 1000"
  using assms by (simp add: get_daily_limit_def settings_def)

theorem get_daily_limit_default_witness:
  "operation_limits \<lparr> operation_limits = Map.empty, usage_log = Map.empty \<rparr> ''embed'' = None
   \<and> get_daily_limit settings
       \<lparr> operation_limits = Map.empty, usage_log = Map.empty \<rparr> ''embed'' = 1000"
proof -
  have h: "operation_limits \<lparr> operation_limits = Map.empty, usage_log = Map.empty \<rparr> ''embed''
             = None"
    by simp
  from get_daily_limit_default [OF h, of settings] h show ?thesis by blast
qed

text \<open>
  Claim C1. Let the daily limit of an operation be \<open>N > 0\<close> and let no request be
  recorded for it today. Then \<open>N\<close> calls of \<open>check_and_increment\<close> one after the other
  all return normally, leaving \<open>N\<close> requests recorded, and the next call raises
  \<open>LimitExceededError\<close> with that operation, \<open>used = N\<close> and \<open>limit = N\<close>.
\<close>

theorem check_and_increment_first_N_then_exceeded:
  assumes "get_daily_limit cfg db operation = N" and "0 < N"
    and "requests_recorded db operation today = 0"
  shows "\<exists>db'. check_and_increment_calls cfg operation today t (nat N) db = Inr db'
           \<and> requests_recorded db' operation today = N
           \<and> check_and_increment cfg db' operation today t
               = Inl (LimitExceededError operation N N)"
proof -
  from assms have ne: "N \<noteq> 0" and fits: "requests_recorded db operation today + int (nat N) \<le> N"
    by simp_all
  from check_and_increment_calls_count [OF assms(1) ne fits, of t]
  obtain db' where run: "check_and_increment_calls cfg operation today t (nat N) db = Inr db'"
    and lim: "get_daily_limit cfg db' operation = N"
    and cnt: "requests_recorded db' operation today = requests_recorded db operation today + int (nat N)"
    by blast
  from cnt assms have cnt': "requests_recorded db' operation today = N" by simp
  then have "requests_recorded db' operation today \<ge> N" by simp
  from check_and_increment_rejects [OF lim ne this, of t] cnt'
  have "check_and_increment cfg db' operation today t = Inl (LimitExceededError operation N N)"
    by simp
  with run cnt' show ?thesis by blast
qed

theorem check_and_increment_first_N_then_exceeded_witness:
  "get_daily_limit settings classify_limit_two ''classify'' = 2 \<and> (0::int) < 2
   \<and> requests_recorded classify_limit_two ''classify'' 0 = 0
   \<and> (\<exists>db'. check_and_increment_calls settings ''classify'' 0 0 (nat 2) classify_limit_two
                = Inr db'
          \<and> requests_recorded db' ''classify'' 0 = 2
          \<and> check_and_increment settings db' ''classify'' 0 0
               = Inl (LimitExceededError ''classify'' 2 2))"
proof -
  have h1: "get_daily_limit settings classify_limit_two ''classify'' = 2"
    by (simp add: get_daily_limit_def classify_limit_two_def)
  have h2: "(0::int) < 2" by simp
  have h3: "requests_recorded classify_limit_two ''classify'' 0 = 0"
    by (simp add: requests_recorded_def classify_limit_two_def)
  from check_and_increment_first_N_then_exceeded [OF h1 h2 h3, of 0] h1 h2 h3
  show ?thesis by blast
qed

subsection \<open>The quota invariant\<close>

lemma quota_invariant_check_and_increment:
  assumes "quota_invariant cfg db"
    and "check_and_increment cfg db operation today t = Inr db'"
  shows "quota_invariant cfg db'"
proof (cases "get_daily_limit cfg db operation = 0")
  case True
  with assms show ?thesis by (simp add: check_and_increment_def)
next
  case False
  show ?thesis
    unfolding quota_invariant_def
  proof (intro allI impI)
    fix operation' day usage
    assume row: "usage_log db' (operation', day) = Some usage"
    have lim: "get_daily_limit cfg db' operation' = get_daily_limit cfg db operation'"
      using check_and_increment_limit_kept [OF assms(2)] by (simp add: get_daily_limit_def)
    show "get_daily_limit cfg db' operation' = 0
            \<or> request_count usage \<le> get_daily_limit cfg db' operation'"
    proof (cases "(operation', day) = (operation, today)")
      case True
      with assms(2) False row have "request_count usage \<le> get_daily_limit cfg db operation"
        by (auto simp: check_and_increment_def get_or_create_usage_def Let_def
                 split: if_splits option.splits)
      with True lim show ?thesis by simp
    next
      case False
      with assms(2) row have "usage_log db (operation', day) = Some usage"
        by (auto simp: check_and_increment_def get_or_create_usage_def Let_def
                 split: if_splits option.splits)
      with assms(1) lim show ?thesis by (simp add: quota_invariant_def)
    qed
  qed
qed

lemma quota_invariant_record_tokens:
  assumes "quota_invariant cfg db" and "0 \<le> get_daily_limit cfg db operation"
  shows "quota_invariant cfg (record_tokens db operation today n)"
  unfolding quota_invariant_def
proof (intro allI impI)
  fix operation' day usage
  assume row: "usage_log (record_tokens db operation today n) (operation', day) = Some usage"
  have lim: "get_daily_limit cfg (record_tokens db operation today n) operation'
               = get_daily_limit cfg db operation'"
    by (simp add: record_tokens_def get_or_create_usage_def get_daily_limit_def Let_def
             split: option.splits)
  show "get_daily_limit cfg (record_tokens db operation today n) operation' = 0
          \<or> request_count usage \<le> get_daily_limit cfg (record_tokens db operation today n) operation'"
  proof (cases "(operation', day) = (operation, today)")
    case True
    show ?thesis
    proof (cases "usage_log db (operation, today)")
      case None
      with True row have "request_count usage = 0"
        by (auto simp: record_tokens_def get_or_create_usage_def Let_def)
      with assms(2) True lim show ?thesis by simp
    next
      case (Some old)
      with True row have "request_count usage = request_count old"
        by (auto simp: record_tokens_def get_or_create_usage_def Let_def)
      with assms(1) Some True lim show ?thesis by (auto simp: quota_invariant_def)
    qed
  next
    case False
    with row have "usage_log db (operation', day) = Some usage"
      by (auto simp: record_tokens_def get_or_create_usage_def Let_def split: option.splits)
    with assms(1) lim show ?thesis by (simp add: quota_invariant_def)
  qed
qed

lemma quota_invariant_update_limit:
  assumes "quota_invariant cfg db"
  shows "quota_invariant cfg (update_limit db operation new_limit) \<longleftrightarrow>
           operation_limits db operation = None \<or> new_limit = 0 \<or>
           (\<forall>day usage. usage_log db (operation, day) = Some usage
                \<longrightarrow> request_count usage \<le> new_limit)"
proof (cases "operation_limits db operation")
  case None
  with assms show ?thesis by (simp add: update_limit_def)
next
  case (Some old)
  have rows: "usage_log (update_limit db operation new_limit) = usage_log db"
    using Some by (simp add: update_limit_def)
  have lim_same: "get_daily_limit cfg (update_limit db operation new_limit) operation = new_limit"
    using Some by (simp add: update_limit_def get_daily_limit_def)
  have lim_other: "\<And>operation'. operation' \<noteq> operation \<Longrightarrow>
      get_daily_limit cfg (update_limit db operation new_limit) operation'
        = get_daily_limit cfg db operation'"
    using Some by (simp add: update_limit_def get_daily_limit_def)
  show ?thesis
  proof
    assume after: "quota_invariant cfg (update_limit db operation new_limit)"
    have "new_limit = 0 \<or> (\<forall>day usage. usage_log db (operation, day) = Some usage
                \<longrightarrow> request_count usage \<le> new_limit)"
      using after rows lim_same unfolding quota_invariant_def by metis
    then show "operation_limits db operation = None \<or> new_limit = 0 \<or>
           (\<forall>day usage. usage_log db (operation, day) = Some usage
                \<longrightarrow> request_count usage \<le> new_limit)"
      by blast
  next
    assume cond: "operation_limits db operation = None \<or> new_limit = 0 \<or>
           (\<forall>day usage. usage_log db (operation, day) = Some usage
                \<longrightarrow> request_count usage \<le> new_limit)"
    with Some have cond': "new_limit = 0 \<or>
           (\<forall>day usage. usage_log db (operation, day) = Some usage
                \<longrightarrow> request_count usage \<le> new_limit)"
      by simp
    show "quota_invariant cfg (update_limit db operation new_limit)"
      unfolding quota_invariant_def
    proof (intro allI impI)
      fix operation' day usage
      assume row: "usage_log (update_limit db operation new_limit) (operation', day) = Some usage"
      then have row': "usage_log db (operation', day) = Some usage" by (simp add: rows)
      show "get_daily_limit cfg (update_limit db operation new_limit) operation' = 0
              \<or> request_count usage
                   \<le> get_daily_limit cfg (update_limit db operation new_limit) operation'"
      proof (cases "operation' = operation")
        case True
        with cond' row' lim_same show ?thesis by auto
      next
        case False
        with assms row' lim_other [OF False] show ?thesis by (simp add: quota_invariant_def)
      qed
    qed
  qed
qed

text \<open>
  Claim C2, as stated: every operation of the quota service, \<open>update_limit\<close> included,
  preserves the quota invariant. It fails for \<open>update_limit\<close>: with the limit of
  \<open>summarize\<close> at 5 and five requests recorded the invariant holds, and lowering the limit
  to 3 leaves five requests recorded against a limit of 3.
\<close>

theorem update_limit_breaks_quota_invariant:
  "quota_invariant settings summarize_five_used
   \<and> \<not> quota_invariant settings (update_limit summarize_five_used ''summarize'' 3)"
proof
  show "quota_invariant settings summarize_five_used"
    by (auto simp: quota_invariant_def summarize_five_used_def get_daily_limit_def
             split: if_splits)
  have row: "usage_log (update_limit summarize_five_used ''summarize'' 3) (''summarize'', 0)
               = Some \<lparr> request_count = 5, total_tokens = 0 \<rparr>"
    by (simp add: update_limit_def summarize_five_used_def)
  have lim: "get_daily_limit settings (update_limit summarize_five_used ''summarize'' 3)
               ''summarize'' = 3"
    by (simp add: update_limit_def summarize_five_used_def get_daily_limit_def)
  show "\<not> quota_invariant settings (update_limit summarize_five_used ''summarize'' 3)"
  proof
    assume "quota_invariant settings (update_limit summarize_five_used ''summarize'' 3)"
    with row lim have "(5::int) \<le> 3"
      unfolding quota_invariant_def by fastforce
    then show False by simp
  qed
qed

text \<open>
  Claim C2, amended. From a ledger where the quota invariant holds:
  \<^item> a call of \<open>check_and_increment\<close> that returns leaves it holding (a call that raises
    commits nothing);
  \<^item> \<open>record_tokens\<close> leaves it holding when the daily limit of the operation is not
    negative;
  \<^item> \<open>update_limit\<close> leaves it holding exactly when the operation has no stored limit (the
    update then changes nothing), or the new limit is 0, or no usage row of the operation
    counts more requests than the new limit.
\<close>

theorem quota_invariant_preserved:
  assumes "quota_invariant cfg db"
  shows "(case check_and_increment cfg db operation today t of
            Inl e \<Rightarrow> True
          | Inr db' \<Rightarrow> quota_invariant cfg db')
       \<and> (0 \<le> get_daily_limit cfg db operation
            \<longrightarrow> quota_invariant cfg (record_tokens db operation today n))
       \<and> (quota_invariant cfg (update_limit db operation new_limit) \<longleftrightarrow>
            operation_limits db operation = None \<or> new_limit = 0 \<or>
            (\<forall>day usage. usage_log db (operation, day) = Some usage
                 \<longrightarrow> request_count usage \<le> new_limit))"
proof (intro conjI)
  show "case check_and_increment cfg db operation today t of
          Inl e \<Rightarrow> True
        | Inr db' \<Rightarrow> quota_invariant cfg db'"
    using quota_invariant_check_and_increment [OF assms]
    by (cases "check_and_increment cfg db operation today t") auto
  show "0 \<le> get_daily_limit cfg db operation
          \<longrightarrow> quota_invariant cfg (record_tokens db operation today n)"
    using quota_invariant_record_tokens [OF assms] by blast
  show "quota_invariant cfg (update_limit db operation new_limit) \<longleftrightarrow>
          operation_limits db operation = None \<or> new_limit = 0 \<or>
          (\<forall>day usage. usage_log db (operation, day) = Some usage
               \<longrightarrow> request_count usage \<le> new_limit)"
    by (rule quota_invariant_update_limit [OF assms])
qed

theorem quota_invariant_preserved_witness:
  "quota_invariant settings summarize_five_used
   \<and> (\<exists>db'. check_and_increment settings summarize_five_used ''summarize'' 1 0 = Inr db'
          \<and> quota_invariant settings db')
   \<and> 0 \<le> get_daily_limit settings summarize_five_used ''summarize''
   \<and> quota_invariant settings (record_tokens summarize_five_used ''summarize'' 1 10)
   \<and> quota_invariant settings (update_limit summarize_five_used ''summarize'' 7)"
proof -
  have inv: "quota_invariant settings summarize_five_used"
    by (auto simp: quota_invariant_def summarize_five_used_def get_daily_limit_def
             split: if_splits)
  have lim: "get_daily_limit settings summarize_five_used ''summarize'' = 5"
    by (simp add: get_daily_limit_def summarize_five_used_def)
  have "requests_recorded summarize_five_used ''summarize'' 1 < 5"
    by (simp add: requests_recorded_def summarize_five_used_def)
  from check_and_increment_admits [OF lim _ this, of 0]
  obtain db' where step: "check_and_increment settings summarize_five_used ''summarize'' 1 0
                            = Inr db'"
    by auto
  have rows: "\<forall>day usage. usage_log summarize_five_used (''summarize'', day) = Some usage
                \<longrightarrow> request_count usage \<le> 7"
    by (auto simp: summarize_five_used_def split: if_splits)
  note all = quota_invariant_preserved [OF inv, where operation = "''summarize''"
               and today = 1 and t = 0 and n = 10 and new_limit = 7]
  from all step have "quota_invariant settings db'" by simp
  moreover from all lim
  have "quota_invariant settings (record_tokens summarize_five_used ''summarize'' 1 10)"
    by simp
  moreover from all rows
  have "quota_invariant settings (update_limit summarize_five_used ''summarize'' 7)"
    by blast
  ultimately show ?thesis using inv lim step by auto
qed

subsection \<open>What a call of \<open>check_and_increment\<close> records\<close>

lemma check_and_increment_counts_one:
  assumes "check_and_increment cfg db operation today t = Inr db'"
    and "get_daily_limit cfg db operation \<noteq> 0"
  shows "usage_log db' (operation, today) \<noteq> None
       \<and> requests_recorded db' operation today = requests_recorded db operation today + 1"
  using assms
  by (auto simp: check_and_increment_def get_or_create_usage_def Let_def requests_recorded_def
           split: if_splits option.splits)

lemma check_and_increment_unlimited:
  assumes "get_daily_limit cfg db operation = 0"
  shows "check_and_increment cfg db operation today t = Inr db"
  using assms by (simp add: check_and_increment_def)


section \<open>Properties of the pipelines\<close>

text \<open>
  Claim C9. The hard cap of \<open>summarize\<close> is 8000 characters in the settings of config.py.
  For a cap \<open>C > 0\<close>, a text of exactly \<open>C\<close> characters passes
  \<open>_validate_input_length\<close>, and a request whose text has \<open>C + 1\<close> characters ends in
  \<open>summarize\<close> with the \<open>OrchestrationError\<close> of the hard limit and with the platform, and
  so today's usage row, as it was: the admission call is not reached.
\<close>

theorem summarize_hard_cap_boundary:
  assumes "MAX_INPUT_CHARS cfg ''summarize'' = Some C" and "0 < C"
  shows "(int (length body) = C \<longrightarrow> validate_input_length cfg ''summarize'' body = Inr ())
       \<and> (int (length (SummarizeRequest.text_field request)) = C + 1 \<longrightarrow>
            summarize cfg env st request =
              (st, Inl (OrchestrationError
                     (InputExceedsHardLimit ''summarize''
                        (length (SummarizeRequest.text_field request)) C))))
       \<and> MAX_INPUT_CHARS settings ''summarize'' = Some 8000"
  using assms
  by (simp add: validate_input_length_def summarize_def settings_def)

theorem summarize_hard_cap_boundary_witness:
  "MAX_INPUT_CHARS settings ''summarize'' = Some 8000 \<and> (0::int) < 8000
   \<and> int (length (replicate 8000 (CHR ''a''))) = 8000
   \<and> validate_input_length settings ''summarize'' (replicate 8000 (CHR ''a'')) = Inr ()
   \<and> int (length (SummarizeRequest.text_field (summarize_request 8001))) = 8000 + 1
   \<and> summarize settings calm_environment fresh_platform (summarize_request 8001) =
        (fresh_platform,
         Inl (OrchestrationError (InputExceedsHardLimit ''summarize'' 8001 8000)))"
proof -
  have h1: "MAX_INPUT_CHARS settings ''summarize'' = Some 8000" by (simp add: settings_def)
  have h2: "(0::int) < 8000" by simp
  have h3: "int (length (replicate 8000 (CHR ''a''))) = 8000" by simp
  have h4: "int (length (SummarizeRequest.text_field (summarize_request 8001))) = 8000 + 1"
    by (simp add: summarize_request_def)
  have h5: "length (SummarizeRequest.text_field (summarize_request 8001)) = 8001"
    by (simp add: summarize_request_def)
  from summarize_hard_cap_boundary [OF h1 h2, where body = "replicate 8000 (CHR ''a'')"
         and request = "summarize_request 8001" and env = calm_environment
         and st = fresh_platform] h1 h2 h3 h4 h5
  show ?thesis by simp
qed

text \<open>
  Claim C4, as stated: in every pipeline both the check for a configured model and the
  check of the input length precede the admission call, so a request failing either
  leaves today's usage row unchanged. The check for a configured model is made after
  the admission call: with settings that map no operation to a model, a \<open>summarize\<close>
  request on an empty ledger ends with the \<open>OrchestrationError\<close> for the missing model,
  and the usage row for today, absent before, counts one request.
\<close>

theorem model_check_after_admission_consumes_quota:
  "snd (summarize unmapped_settings calm_environment fresh_platform (summarize_request 60))
     = Inl (OrchestrationError (NoModelConfigured ''summarize''))
   \<and> usage_log (ledger fresh_platform) (''summarize'', 0) = None
   \<and> usage_log (ledger (fst (summarize unmapped_settings calm_environment fresh_platform
                                 (summarize_request 60)))) (''summarize'', 0)
       = Some \<lparr> request_count = 1, total_tokens = 0 \<rparr>"
  by (simp add: summarize_def unmapped_settings_def settings_def calm_environment_def
        fresh_platform_def summarize_request_def validate_input_length_def
        check_and_increment_def get_daily_limit_def get_or_create_usage_def
        get_model_folder_def Let_def)

text \<open>
  Claim C4, amended. In each of the three pipelines the check of the input length is
  made before the admission call: a request that fails it ends with that error and the
  platform unchanged. The check for a configured model is made after the admission call:
  a request that passes the length check and fails the model check ends with the quota
  error and the platform unchanged when admission raises, and otherwise with the error
  for the missing model and the ledger that admission committed.
\<close>

theorem validation_order_in_pipelines:
  "(validate_input_length cfg ''summarize'' (SummarizeRequest.text_field sreq) = Inl e1 \<longrightarrow>
      summarize cfg env st sreq = (st, Inl e1))
   \<and> (validate_input_length cfg ''translate'' (TranslateRequest.text_field treq) = Inl e2 \<longrightarrow>
      translate cfg env st treq = (st, Inl e2))
   \<and> (validate_input_length cfg ''classify'' (ClassifyRequest.text_field creq) = Inl e3 \<longrightarrow>
      classify cfg env st creq = (st, Inl e3))
   \<and> (validate_input_length cfg ''summarize'' (SummarizeRequest.text_field sreq) = Inr () \<longrightarrow>
      get_model_folder cfg ''summarize'' = Inl e4 \<longrightarrow>
      summarize cfg env st sreq =
        (case check_and_increment cfg (ledger st) ''summarize'' (today_at_admission env) 0 of
           Inl q \<Rightarrow> (st, Inl q)
         | Inr db1 \<Rightarrow> (st \<lparr> ledger := db1 \<rparr>, Inl e4)))
   \<and> (validate_input_length cfg ''translate'' (TranslateRequest.text_field treq) = Inr () \<longrightarrow>
      get_model_folder cfg ''translate'' = Inl e5 \<longrightarrow>
      translate cfg env st treq =
        (case check_and_increment cfg (ledger st) ''translate'' (today_at_admission env) 0 of
           Inl q \<Rightarrow> (st, Inl q)
         | Inr db1 \<Rightarrow> (st \<lparr> ledger := db1 \<rparr>, Inl e5)))
   \<and> (validate_input_length cfg ''classify'' (ClassifyRequest.text_field creq) = Inr () \<longrightarrow>
      get_model_folder cfg ''classify'' = Inl e6 \<longrightarrow>
      classify cfg env st creq =
        (case check_and_increment cfg (ledger st) ''classify'' (today_at_admission env) 0 of
           Inl q \<Rightarrow> (st, Inl q)
         | Inr db1 \<Rightarrow> (st \<lparr> ledger := db1 \<rparr>, Inl e6)))"
proof (intro conjI impI)
  assume "validate_input_length cfg ''summarize'' (SummarizeRequest.text_field sreq) = Inl e1"
  then show "summarize cfg env st sreq = (st, Inl e1)" by (simp add: summarize_def)
next
  assume "validate_input_length cfg ''translate'' (TranslateRequest.text_field treq) = Inl e2"
  then show "translate cfg env st treq = (st, Inl e2)" by (simp add: translate_def)
next
  assume "validate_input_length cfg ''classify'' (ClassifyRequest.text_field creq) = Inl e3"
  then show "classify cfg env st creq = (st, Inl e3)" by (simp add: classify_def)
next
  assume "validate_input_length cfg ''summarize'' (SummarizeRequest.text_field sreq) = Inr ()"
    and "get_model_folder cfg ''summarize'' = Inl e4"
  then show "summarize cfg env st sreq =
        (case check_and_increment cfg (ledger st) ''summarize'' (today_at_admission env) 0 of
           Inl q \<Rightarrow> (st, Inl q)
         | Inr db1 \<Rightarrow> (st \<lparr> ledger := db1 \<rparr>, Inl e4))"
    by (simp add: summarize_def Let_def split: sum.splits)
next
  assume "validate_input_length cfg ''translate'' (TranslateRequest.text_field treq) = Inr ()"
    and "get_model_folder cfg ''translate'' = Inl e5"
  then show "translate cfg env st treq =
        (case check_and_increment cfg (ledger st) ''translate'' (today_at_admission env) 0 of
           Inl q \<Rightarrow> (st, Inl q)
         | Inr db1 \<Rightarrow> (st \<lparr> ledger := db1 \<rparr>, Inl e5))"
    by (simp add: translate_def Let_def split: sum.splits)
next
  assume "validate_input_length cfg ''classify'' (ClassifyRequest.text_field creq) = Inr ()"
    and "get_model_folder cfg ''classify'' = Inl e6"
  then show "classify cfg env st creq =
        (case check_and_increment cfg (ledger st) ''classify'' (today_at_admission env) 0 of
           Inl q \<Rightarrow> (st, Inl q)
         | Inr db1 \<Rightarrow> (st \<lparr> ledger := db1 \<rparr>, Inl e6))"
    by (simp add: classify_def Let_def split: sum.splits)
qed

theorem validation_order_in_pipelines_witness:
  "validate_input_length unmapped_settings ''summarize'' (SummarizeRequest.text_field (summarize_request 8001))
     = Inl (OrchestrationError (InputExceedsHardLimit ''summarize'' 8001 8000))
   \<and> summarize unmapped_settings calm_environment fresh_platform (summarize_request 8001)
     = (fresh_platform, Inl (OrchestrationError (InputExceedsHardLimit ''summarize'' 8001 8000)))
   \<and> validate_input_length unmapped_settings ''translate'' (TranslateRequest.text_field (translate_request 4001))
     = Inl (OrchestrationError (InputExceedsHardLimit ''translate'' 4001 4000))
   \<and> translate unmapped_settings calm_environment fresh_platform (translate_request 4001)
     = (fresh_platform, Inl (OrchestrationError (InputExceedsHardLimit ''translate'' 4001 4000)))
   \<and> validate_input_length unmapped_settings ''classify'' (ClassifyRequest.text_field (classify_request 2001))
     = Inl (OrchestrationError (InputExceedsHardLimit ''classify'' 2001 2000))
   \<and> classify unmapped_settings calm_environment fresh_platform (classify_request 2001)
     = (fresh_platform, Inl (OrchestrationError (InputExceedsHardLimit ''classify'' 2001 2000)))
   \<and> validate_input_length unmapped_settings ''summarize'' (SummarizeRequest.text_field (summarize_request 60)) = Inr ()
   \<and> get_model_folder unmapped_settings ''summarize'' = Inl (OrchestrationError (NoModelConfigured ''summarize''))
   \<and> summarize unmapped_settings calm_environment fresh_platform (summarize_request 60)
     = (case check_and_increment unmapped_settings (ledger fresh_platform) ''summarize''
               (today_at_admission calm_environment) 0 of
          Inl q \<Rightarrow> (fresh_platform, Inl q)
        | Inr db1 \<Rightarrow> (fresh_platform \<lparr> ledger := db1 \<rparr>,
                       Inl (OrchestrationError (NoModelConfigured ''summarize''))))
   \<and> validate_input_length unmapped_settings ''translate'' (TranslateRequest.text_field (translate_request 60)) = Inr ()
   \<and> get_model_folder unmapped_settings ''translate'' = Inl (OrchestrationError (NoModelConfigured ''translate''))
   \<and> translate unmapped_settings calm_environment fresh_platform (translate_request 60)
     = (case check_and_increment unmapped_settings (ledger fresh_platform) ''translate''
               (today_at_admission calm_environment) 0 of
          Inl q \<Rightarrow> (fresh_platform, Inl q)
        | Inr db1 \<Rightarrow> (fresh_platform \<lparr> ledger := db1 \<rparr>,
                       Inl (OrchestrationError (NoModelConfigured ''translate''))))
   \<and> validate_input_length unmapped_settings ''classify'' (ClassifyRequest.text_field (classify_request 60)) = Inr ()
   \<and> get_model_folder unmapped_settings ''classify'' = Inl (OrchestrationError (NoModelConfigured ''classify''))
   \<and> classify unmapped_settings calm_environment fresh_platform (classify_request 60)
     = (case check_and_increment unmapped_settings (ledger fresh_platform) ''classify''
               (today_at_admission calm_environment) 0 of
          Inl q \<Rightarrow> (fresh_platform, Inl q)
        | Inr db1 \<Rightarrow> (fresh_platform \<lparr> ledger := db1 \<rparr>,
                       Inl (OrchestrationError (NoModelConfigured ''classify''))))"
proof -
  have long_summarize: "validate_input_length unmapped_settings ''summarize'' (SummarizeRequest.text_field (summarize_request 8001))
     = Inl (OrchestrationError (InputExceedsHardLimit ''summarize'' 8001 8000))"
    by (simp add: validate_input_length_def unmapped_settings_def settings_def summarize_request_def)
  have short_summarize: "validate_input_length unmapped_settings ''summarize'' (SummarizeRequest.text_field (summarize_request 60)) = Inr ()"
    by (simp add: validate_input_length_def unmapped_settings_def settings_def summarize_request_def)
  have nomodel_summarize: "get_model_folder unmapped_settings ''summarize'' = Inl (OrchestrationError (NoModelConfigured ''summarize''))"
    by (simp add: get_model_folder_def unmapped_settings_def)
  have long_translate: "validate_input_length unmapped_settings ''translate'' (TranslateRequest.text_field (translate_request 4001))
     = Inl (OrchestrationError (InputExceedsHardLimit ''translate'' 4001 4000))"
    by (simp add: validate_input_length_def unmapped_settings_def settings_def translate_request_def)
  have short_translate: "validate_input_length unmapped_settings ''translate'' (TranslateRequest.text_field (translate_request 60)) = Inr ()"
    by (simp add: validate_input_length_def unmapped_settings_def settings_def translate_request_def)
  have nomodel_translate: "get_model_folder unmapped_settings ''translate'' = Inl (OrchestrationError (NoModelConfigured ''translate''))"
    by (simp add: get_model_folder_def unmapped_settings_def)
  have long_classify: "validate_input_length unmapped_settings ''classify'' (ClassifyRequest.text_field (classify_request 2001))
     = Inl (OrchestrationError (InputExceedsHardLimit ''classify'' 2001 2000))"
    by (simp add: validate_input_length_def unmapped_settings_def settings_def classify_request_def)
  have short_classify: "validate_input_length unmapped_settings ''classify'' (ClassifyRequest.text_field (classify_request 60)) = Inr ()"
    by (simp add: validate_input_length_def unmapped_settings_def settings_def classify_request_def)
  have nomodel_classify: "get_model_folder unmapped_settings ''classify'' = Inl (OrchestrationError (NoModelConfigured ''classify''))"
    by (simp add: get_model_folder_def unmapped_settings_def)
  note long_case = validation_order_in_pipelines
    [where cfg = unmapped_settings and env = calm_environment and st = fresh_platform
       and sreq = "summarize_request 8001" and treq = "translate_request 4001"
       and creq = "classify_request 2001"
       and ?e1.0 = "OrchestrationError (InputExceedsHardLimit ''summarize'' 8001 8000)"
       and ?e2.0 = "OrchestrationError (InputExceedsHardLimit ''translate'' 4001 4000)"
       and ?e3.0 = "OrchestrationError (InputExceedsHardLimit ''classify'' 2001 2000)"]
  note short_case = validation_order_in_pipelines
    [where cfg = unmapped_settings and env = calm_environment and st = fresh_platform
       and sreq = "summarize_request 60" and treq = "translate_request 60"
       and creq = "classify_request 60"
       and ?e4.0 = "OrchestrationError (NoModelConfigured ''summarize'')"
       and ?e5.0 = "OrchestrationError (NoModelConfigured ''translate'')"
       and ?e6.0 = "OrchestrationError (NoModelConfigured ''classify'')"]
  from long_case long_summarize long_translate long_classify
  have a: "summarize unmapped_settings calm_environment fresh_platform (summarize_request 8001)
     = (fresh_platform, Inl (OrchestrationError (InputExceedsHardLimit ''summarize'' 8001 8000)))"
    and b: "translate unmapped_settings calm_environment fresh_platform (translate_request 4001)
     = (fresh_platform, Inl (OrchestrationError (InputExceedsHardLimit ''translate'' 4001 4000)))"
    and c: "classify unmapped_settings calm_environment fresh_platform (classify_request 2001)
     = (fresh_platform, Inl (OrchestrationError (InputExceedsHardLimit ''classify'' 2001 2000)))"
    by blast+
  from short_case short_summarize nomodel_summarize short_translate nomodel_translate
    short_classify nomodel_classify
  have d: "summarize unmapped_settings calm_environment fresh_platform (summarize_request 60)
     = (case check_and_increment unmapped_settings (ledger fresh_platform) ''summarize''
               (today_at_admission calm_environment) 0 of
          Inl q \<Rightarrow> (fresh_platform, Inl q)
        | Inr db1 \<Rightarrow> (fresh_platform \<lparr> ledger := db1 \<rparr>,
                       Inl (OrchestrationError (NoModelConfigured ''summarize''))))"
    and e: "translate unmapped_settings calm_environment fresh_platform (translate_request 60)
     = (case check_and_increment unmapped_settings (ledger fresh_platform) ''translate''
               (today_at_admission calm_environment) 0 of
          Inl q \<Rightarrow> (fresh_platform, Inl q)
        | Inr db1 \<Rightarrow> (fresh_platform \<lparr> ledger := db1 \<rparr>,
                       Inl (OrchestrationError (NoModelConfigured ''translate''))))"
    and f: "classify unmapped_settings calm_environment fresh_platform (classify_request 60)
     = (case check_and_increment unmapped_settings (ledger fresh_platform) ''classify''
               (today_at_admission calm_environment) 0 of
          Inl q \<Rightarrow> (fresh_platform, Inl q)
        | Inr db1 \<Rightarrow> (fresh_platform \<lparr> ledger := db1 \<rparr>,
                       Inl (OrchestrationError (NoModelConfigured ''classify''))))"
    by blast+
  from a b c d e f long_summarize long_translate long_classify
    short_summarize short_translate short_classify
    nomodel_summarize nomodel_translate nomodel_classify
  show ?thesis by (intro conjI)
qed

text \<open>
  Claim C7, as stated: when inference has completed, a failure of \<open>record_tokens\<close> does
  not fail the request. The call of \<open>record_tokens\<close> stands in no \<open>try\<close> block. The same
  \<open>summarize\<close> request returns a response carrying the generated text when the
  database session works, and ends with the exception of the session when it raises
  inside \<open>record_tokens\<close>.
\<close>

theorem accounting_failure_fails_request:
  "(case snd (summarize settings calm_environment fresh_platform (summarize_request 60)) of
      Inl e \<Rightarrow> False
    | Inr response \<Rightarrow> summary response = positive_raw)
   \<and> accounting_failure accounting_fails_environment = Some DatabaseFailure
   \<and> snd (summarize settings accounting_fails_environment fresh_platform (summarize_request 60))
       = Inl DatabaseFailure"
  by (simp add: summarize_def settings_def calm_environment_def accounting_fails_environment_def
        fresh_platform_def summarize_request_def validate_input_length_def
        check_and_increment_def get_daily_limit_def get_or_create_usage_def
        get_model_folder_def get_or_load_def get_lock_def Let_def)

text \<open>
  Claim C7, amended. In each of the three pipelines, when every step up to and including
  inference has succeeded and \<open>record_tokens\<close> raises, the request fails: the exception
  of \<open>record_tokens\<close> reaches the caller and no response is assembled. The platform keeps
  the request that admission counted and the model that was loaded.
\<close>

theorem accounting_failure_reaches_caller:
  "(validate_input_length cfg ''summarize'' (SummarizeRequest.text_field sreq) = Inr () \<longrightarrow>
      check_and_increment cfg (ledger st) ''summarize'' (today_at_admission env) 0 = Inr db1 \<longrightarrow>
      get_model_folder cfg ''summarize'' = Inr mf1 \<longrightarrow>
      get_or_load (model_loader env) (clock env) (model_registry st) mf1 = (reg1, Inr loaded1) \<longrightarrow>
      MAX_OUTPUT_TOKENS cfg ''summarize'' = Some mt1 \<longrightarrow>
      generate env loaded1
        (build_summarize_prompt (SummarizeRequest.text_field sreq) (max_sentences sreq) (language sreq)) mt1
        = Inr (gen1, tc1) \<longrightarrow>
      accounting_failure env = Some e \<longrightarrow>
      summarize cfg env st sreq = (st \<lparr> ledger := db1, model_registry := reg1 \<rparr>, Inl e))
   \<and> (validate_input_length cfg ''translate'' (TranslateRequest.text_field treq) = Inr () \<longrightarrow>
      check_and_increment cfg (ledger st) ''translate'' (today_at_admission env) 0 = Inr db2 \<longrightarrow>
      get_model_folder cfg ''translate'' = Inr mf2 \<longrightarrow>
      get_or_load (model_loader env) (clock env) (model_registry st) mf2 = (reg2, Inr loaded2) \<longrightarrow>
      MAX_OUTPUT_TOKENS cfg ''translate'' = Some mt2 \<longrightarrow>
      generate env loaded2
        (build_translate_prompt (TranslateRequest.text_field treq) (TranslateRequest.source_language treq) (TranslateRequest.target_language treq)) mt2
        = Inr (gen2, tc2) \<longrightarrow>
      accounting_failure env = Some e \<longrightarrow>
      translate cfg env st treq = (st \<lparr> ledger := db2, model_registry := reg2 \<rparr>, Inl e))
   \<and> (validate_input_length cfg ''classify'' (ClassifyRequest.text_field creq) = Inr () \<longrightarrow>
      check_and_increment cfg (ledger st) ''classify'' (today_at_admission env) 0 = Inr db3 \<longrightarrow>
      get_model_folder cfg ''classify'' = Inr mf3 \<longrightarrow>
      get_or_load (model_loader env) (clock env) (model_registry st) mf3 = (reg3, Inr loaded3) \<longrightarrow>
      MAX_OUTPUT_TOKENS cfg ''classify'' = Some mt3 \<longrightarrow>
      generate env loaded3
        (build_classify_prompt (ClassifyRequest.text_field creq) (categories creq)) mt3
        = Inr (gen3, tc3) \<longrightarrow>
      accounting_failure env = Some e \<longrightarrow>
      classify cfg env st creq = (st \<lparr> ledger := db3, model_registry := reg3 \<rparr>, Inl e))"
  by (simp add: summarize_def translate_def classify_def Let_def)

theorem accounting_failure_reaches_caller_witness:
  "accounting_failure accounting_fails_environment = Some DatabaseFailure
   \<and> validate_input_length settings ''summarize'' (SummarizeRequest.text_field (summarize_request 60)) = Inr ()
   \<and> check_and_increment settings (ledger fresh_platform) ''summarize'' (today_at_admission accounting_fails_environment) 0
      = Inr \<lparr> operation_limits = Map.empty, usage_log = [(''summarize'', 0) \<mapsto> \<lparr> request_count = 1, total_tokens = 0 \<rparr>] \<rparr>
   \<and> get_model_folder settings ''summarize'' = Inr ''qwen-summarize''
   \<and> get_or_load (model_loader accounting_fails_environment) (clock accounting_fails_environment) (model_registry fresh_platform) ''qwen-summarize''
      = (\<lparr> registry = [''qwen-summarize'' \<mapsto> \<lparr> folder = ''qwen-summarize'', tokenizer = 1, model = 2, device = ''cpu'', loaded_at = 0 \<rparr>], locks = {''qwen-summarize''} \<rparr>,
         Inr \<lparr> folder = ''qwen-summarize'', tokenizer = 1, model = 2, device = ''cpu'', loaded_at = 0 \<rparr>)
   \<and> MAX_OUTPUT_TOKENS settings ''summarize'' = Some 512
   \<and> generate accounting_fails_environment \<lparr> folder = ''qwen-summarize'', tokenizer = 1, model = 2, device = ''cpu'', loaded_at = 0 \<rparr>
        (build_summarize_prompt (SummarizeRequest.text_field (summarize_request 60)) (max_sentences (summarize_request 60)) (language (summarize_request 60))) 512
      = Inr (positive_raw, 12)
   \<and> summarize settings accounting_fails_environment fresh_platform (summarize_request 60)
      = (fresh_platform \<lparr> ledger := \<lparr> operation_limits = Map.empty, usage_log = [(''summarize'', 0) \<mapsto> \<lparr> request_count = 1, total_tokens = 0 \<rparr>] \<rparr>,
           model_registry := \<lparr> registry = [''qwen-summarize'' \<mapsto> \<lparr> folder = ''qwen-summarize'', tokenizer = 1, model = 2, device = ''cpu'', loaded_at = 0 \<rparr>], locks = {''qwen-summarize''} \<rparr> \<rparr>,
         Inl DatabaseFailure)
   \<and> validate_input_length settings ''translate'' (TranslateRequest.text_field (translate_request 60)) = Inr ()
   \<and> check_and_increment settings (ledger fresh_platform) ''translate'' (today_at_admission accounting_fails_environment) 0
      = Inr \<lparr> operation_limits = Map.empty, usage_log = [(''translate'', 0) \<mapsto> \<lparr> request_count = 1, total_tokens = 0 \<rparr>] \<rparr>
   \<and> get_model_folder settings ''translate'' = Inr ''qwen-translate''
   \<and> get_or_load (model_loader accounting_fails_environment) (clock accounting_fails_environment) (model_registry fresh_platform) ''qwen-translate''
      = (\<lparr> registry = [''qwen-translate'' \<mapsto> \<lparr> folder = ''qwen-translate'', tokenizer = 1, model = 2, device = ''cpu'', loaded_at = 0 \<rparr>], locks = {''qwen-translate''} \<rparr>,
         Inr \<lparr> folder = ''qwen-translate'', tokenizer = 1, model = 2, device = ''cpu'', loaded_at = 0 \<rparr>)
   \<and> MAX_OUTPUT_TOKENS settings ''translate'' = Some 512
   \<and> generate accounting_fails_environment \<lparr> folder = ''qwen-translate'', tokenizer = 1, model = 2, device = ''cpu'', loaded_at = 0 \<rparr>
        (build_translate_prompt (TranslateRequest.text_field (translate_request 60)) (TranslateRequest.source_language (translate_request 60)) (TranslateRequest.target_language (translate_request 60))) 512
      = Inr (positive_raw, 12)
   \<and> translate settings accounting_fails_environment fresh_platform (translate_request 60)
      = (fresh_platform \<lparr> ledger := \<lparr> operation_limits = Map.empty, usage_log = [(''translate'', 0) \<mapsto> \<lparr> request_count = 1, total_tokens = 0 \<rparr>] \<rparr>,
           model_registry := \<lparr> registry = [''qwen-translate'' \<mapsto> \<lparr> folder = ''qwen-translate'', tokenizer = 1, model = 2, device = ''cpu'', loaded_at = 0 \<rparr>], locks = {''qwen-translate''} \<rparr> \<rparr>,
         Inl DatabaseFailure)
   \<and> validate_input_length settings ''classify'' (ClassifyRequest.text_field (classify_request 60)) = Inr ()
   \<and> check_and_increment settings (ledger fresh_platform) ''classify'' (today_at_admission accounting_fails_environment) 0
      = Inr \<lparr> operation_limits = Map.empty, usage_log = [(''classify'', 0) \<mapsto> \<lparr> request_count = 1, total_tokens = 0 \<rparr>] \<rparr>
   \<and> get_model_folder settings ''classify'' = Inr ''qwen-classify''
   \<and> get_or_load (model_loader accounting_fails_environment) (clock accounting_fails_environment) (model_registry fresh_platform) ''qwen-classify''
      = (\<lparr> registry = [''qwen-classify'' \<mapsto> \<lparr> folder = ''qwen-classify'', tokenizer = 1, model = 2, device = ''cpu'', loaded_at = 0 \<rparr>], locks = {''qwen-classify''} \<rparr>,
         Inr \<lparr> folder = ''qwen-classify'', tokenizer = 1, model = 2, device = ''cpu'', loaded_at = 0 \<rparr>)
   \<and> MAX_OUTPUT_TOKENS settings ''classify'' = Some 64
   \<and> generate accounting_fails_environment \<lparr> folder = ''qwen-classify'', tokenizer = 1, model = 2, device = ''cpu'', loaded_at = 0 \<rparr>
        (build_classify_prompt (ClassifyRequest.text_field (classify_request 60)) (categories (classify_request 60))) 64
      = Inr (positive_raw, 12)
   \<and> classify settings accounting_fails_environment fresh_platform (classify_request 60)
      = (fresh_platform \<lparr> ledger := \<lparr> operation_limits = Map.empty, usage_log = [(''classify'', 0) \<mapsto> \<lparr> request_count = 1, total_tokens = 0 \<rparr>] \<rparr>,
           model_registry := \<lparr> registry = [''qwen-classify'' \<mapsto> \<lparr> folder = ''qwen-classify'', tokenizer = 1, model = 2, device = ''cpu'', loaded_at = 0 \<rparr>], locks = {''qwen-classify''} \<rparr> \<rparr>,
         Inl DatabaseFailure)"
proof -
  have f: "accounting_failure accounting_fails_environment = Some DatabaseFailure"
    by (simp add: accounting_fails_environment_def)
  have v1: "validate_input_length settings ''summarize'' (SummarizeRequest.text_field (summarize_request 60)) = Inr ()"
    by (simp add: validate_input_length_def settings_def summarize_request_def)
  have a1: "check_and_increment settings (ledger fresh_platform) ''summarize'' (today_at_admission accounting_fails_environment) 0
      = Inr \<lparr> operation_limits = Map.empty, usage_log = [(''summarize'', 0) \<mapsto> \<lparr> request_count = 1, total_tokens = 0 \<rparr>] \<rparr>"
    by (simp add: check_and_increment_def get_daily_limit_def get_or_create_usage_def settings_def
          fresh_platform_def accounting_fails_environment_def calm_environment_def Let_def)
  have m1: "get_model_folder settings ''summarize'' = Inr ''qwen-summarize''"
    by (simp add: get_model_folder_def settings_def)
  have l1: "get_or_load (model_loader accounting_fails_environment) (clock accounting_fails_environment) (model_registry fresh_platform) ''qwen-summarize''
      = (\<lparr> registry = [''qwen-summarize'' \<mapsto> \<lparr> folder = ''qwen-summarize'', tokenizer = 1, model = 2, device = ''cpu'', loaded_at = 0 \<rparr>], locks = {''qwen-summarize''} \<rparr>,
         Inr \<lparr> folder = ''qwen-summarize'', tokenizer = 1, model = 2, device = ''cpu'', loaded_at = 0 \<rparr>)"
    by (simp add: get_or_load_def get_lock_def fresh_platform_def accounting_fails_environment_def
          calm_environment_def Let_def)
  have t1: "MAX_OUTPUT_TOKENS settings ''summarize'' = Some 512"
    by (simp add: settings_def)
  have g1: "generate accounting_fails_environment \<lparr> folder = ''qwen-summarize'', tokenizer = 1, model = 2, device = ''cpu'', loaded_at = 0 \<rparr>
        (build_summarize_prompt (SummarizeRequest.text_field (summarize_request 60)) (max_sentences (summarize_request 60)) (language (summarize_request 60))) 512
      = Inr (positive_raw, 12)"
    by (simp add: accounting_fails_environment_def calm_environment_def)
  have v2: "validate_input_length settings ''translate'' (TranslateRequest.text_field (translate_request 60)) = Inr ()"
    by (simp add: validate_input_length_def settings_def translate_request_def)
  have a2: "check_and_increment settings (ledger fresh_platform) ''translate'' (today_at_admission accounting_fails_environment) 0
      = Inr \<lparr> operation_limits = Map.empty, usage_log = [(''translate'', 0) \<mapsto> \<lparr> request_count = 1, total_tokens = 0 \<rparr>] \<rparr>"
    by (simp add: check_and_increment_def get_daily_limit_def get_or_create_usage_def settings_def
          fresh_platform_def accounting_fails_environment_def calm_environment_def Let_def)
  have m2: "get_model_folder settings ''translate'' = Inr ''qwen-translate''"
    by (simp add: get_model_folder_def settings_def)
  have l2: "get_or_load (model_loader accounting_fails_environment) (clock accounting_fails_environment) (model_registry fresh_platform) ''qwen-translate''
      = (\<lparr> registry = [''qwen-translate'' \<mapsto> \<lparr> folder = ''qwen-translate'', tokenizer = 1, model = 2, device = ''cpu'', loaded_at = 0 \<rparr>], locks = {''qwen-translate''} \<rparr>,
         Inr \<lparr> folder = ''qwen-translate'', tokenizer = 1, model = 2, device = ''cpu'', loaded_at = 0 \<rparr>)"
    by (simp add: get_or_load_def get_lock_def fresh_platform_def accounting_fails_environment_def
          calm_environment_def Let_def)
  have t2: "MAX_OUTPUT_TOKENS settings ''translate'' = Some 512"
    by (simp add: settings_def)
  have g2: "generate accounting_fails_environment \<lparr> folder = ''qwen-translate'', tokenizer = 1, model = 2, device = ''cpu'', loaded_at = 0 \<rparr>
        (build_translate_prompt (TranslateRequest.text_field (translate_request 60)) (TranslateRequest.source_language (translate_request 60)) (TranslateRequest.target_language (translate_request 60))) 512
      = Inr (positive_raw, 12)"
    by (simp add: accounting_fails_environment_def calm_environment_def)
  have v3: "validate_input_length settings ''classify'' (ClassifyRequest.text_field (classify_request 60)) = Inr ()"
    by (simp add: validate_input_length_def settings_def classify_request_def)
  have a3: "check_and_increment settings (ledger fresh_platform) ''classify'' (today_at_admission accounting_fails_environment) 0
      = Inr \<lparr> operation_limits = Map.empty, usage_log = [(''classify'', 0) \<mapsto> \<lparr> request_count = 1, total_tokens = 0 \<rparr>] \<rparr>"
    by (simp add: check_and_increment_def get_daily_limit_def get_or_create_usage_def settings_def
          fresh_platform_def accounting_fails_environment_def calm_environment_def Let_def)
  have m3: "get_model_folder settings ''classify'' = Inr ''qwen-classify''"
    by (simp add: get_model_folder_def settings_def)
  have l3: "get_or_load (model_loader accounting_fails_environment) (clock accounting_fails_environment) (model_registry fresh_platform) ''qwen-classify''
      = (\<lparr> registry = [''qwen-classify'' \<mapsto> \<lparr> folder = ''qwen-classify'', tokenizer = 1, model = 2, device = ''cpu'', loaded_at = 0 \<rparr>], locks = {''qwen-classify''} \<rparr>,
         Inr \<lparr> folder = ''qwen-classify'', tokenizer = 1, model = 2, device = ''cpu'', loaded_at = 0 \<rparr>)"
    by (simp add: get_or_load_def get_lock_def fresh_platform_def accounting_fails_environment_def
          calm_environment_def Let_def)
  have t3: "MAX_OUTPUT_TOKENS settings ''classify'' = Some 64"
    by (simp add: settings_def)
  have g3: "generate accounting_fails_environment \<lparr> folder = ''qwen-classify'', tokenizer = 1, model = 2, device = ''cpu'', loaded_at = 0 \<rparr>
        (build_classify_prompt (ClassifyRequest.text_field (classify_request 60)) (categories (classify_request 60))) 64
      = Inr (positive_raw, 12)"
    by (simp add: accounting_fails_environment_def calm_environment_def)
  note inst = accounting_failure_reaches_caller
    [where cfg = settings and env = accounting_fails_environment and st = fresh_platform and e = DatabaseFailure
       and sreq = "summarize_request 60"
       and ?db1.0 = "\<lparr> operation_limits = Map.empty, usage_log = [(''summarize'', 0) \<mapsto> \<lparr> request_count = 1, total_tokens = 0 \<rparr>] \<rparr>"
       and ?mf1.0 = "''qwen-summarize''"
       and ?reg1.0 = "\<lparr> registry = [''qwen-summarize'' \<mapsto> \<lparr> folder = ''qwen-summarize'', tokenizer = 1, model = 2, device = ''cpu'', loaded_at = 0 \<rparr>], locks = {''qwen-summarize''} \<rparr>"
       and ?loaded1.0 = "\<lparr> folder = ''qwen-summarize'', tokenizer = 1, model = 2, device = ''cpu'', loaded_at = 0 \<rparr>"
       and ?mt1.0 = 512
       and ?gen1.0 = positive_raw
       and ?tc1.0 = 12
       and treq = "translate_request 60"
       and ?db2.0 = "\<lparr> operation_limits = Map.empty, usage_log = [(''translate'', 0) \<mapsto> \<lparr> request_count = 1, total_tokens = 0 \<rparr>] \<rparr>"
       and ?mf2.0 = "''qwen-translate''"
       and ?reg2.0 = "\<lparr> registry = [''qwen-translate'' \<mapsto> \<lparr> folder = ''qwen-translate'', tokenizer = 1, model = 2, device = ''cpu'', loaded_at = 0 \<rparr>], locks = {''qwen-translate''} \<rparr>"
       and ?loaded2.0 = "\<lparr> folder = ''qwen-translate'', tokenizer = 1, model = 2, device = ''cpu'', loaded_at = 0 \<rparr>"
       and ?mt2.0 = 512
       and ?gen2.0 = positive_raw
       and ?tc2.0 = 12
       and creq = "classify_request 60"
       and ?db3.0 = "\<lparr> operation_limits = Map.empty, usage_log = [(''classify'', 0) \<mapsto> \<lparr> request_count = 1, total_tokens = 0 \<rparr>] \<rparr>"
       and ?mf3.0 = "''qwen-classify''"
       and ?reg3.0 = "\<lparr> registry = [''qwen-classify'' \<mapsto> \<lparr> folder = ''qwen-classify'', tokenizer = 1, model = 2, device = ''cpu'', loaded_at = 0 \<rparr>], locks = {''qwen-classify''} \<rparr>"
       and ?loaded3.0 = "\<lparr> folder = ''qwen-classify'', tokenizer = 1, model = 2, device = ''cpu'', loaded_at = 0 \<rparr>"
       and ?mt3.0 = 64
       and ?gen3.0 = positive_raw
       and ?tc3.0 = 12]
  from inst v1 a1 m1 l1 t1 g1 f
  have c1: "summarize settings accounting_fails_environment fresh_platform (summarize_request 60)
      = (fresh_platform \<lparr> ledger := \<lparr> operation_limits = Map.empty, usage_log = [(''summarize'', 0) \<mapsto> \<lparr> request_count = 1, total_tokens = 0 \<rparr>] \<rparr>,
           model_registry := \<lparr> registry = [''qwen-summarize'' \<mapsto> \<lparr> folder = ''qwen-summarize'', tokenizer = 1, model = 2, device = ''cpu'', loaded_at = 0 \<rparr>], locks = {''qwen-summarize''} \<rparr> \<rparr>,
         Inl DatabaseFailure)"
    by blast
  from inst v2 a2 m2 l2 t2 g2 f
  have c2: "translate settings accounting_fails_environment fresh_platform (translate_request 60)
      = (fresh_platform \<lparr> ledger := \<lparr> operation_limits = Map.empty, usage_log = [(''translate'', 0) \<mapsto> \<lparr> request_count = 1, total_tokens = 0 \<rparr>] \<rparr>,
           model_registry := \<lparr> registry = [''qwen-translate'' \<mapsto> \<lparr> folder = ''qwen-translate'', tokenizer = 1, model = 2, device = ''cpu'', loaded_at = 0 \<rparr>], locks = {''qwen-translate''} \<rparr> \<rparr>,
         Inl DatabaseFailure)"
    by blast
  from inst v3 a3 m3 l3 t3 g3 f
  have c3: "classify settings accounting_fails_environment fresh_platform (classify_request 60)
      = (fresh_platform \<lparr> ledger := \<lparr> operation_limits = Map.empty, usage_log = [(''classify'', 0) \<mapsto> \<lparr> request_count = 1, total_tokens = 0 \<rparr>] \<rparr>,
           model_registry := \<lparr> registry = [''qwen-classify'' \<mapsto> \<lparr> folder = ''qwen-classify'', tokenizer = 1, model = 2, device = ''cpu'', loaded_at = 0 \<rparr>], locks = {''qwen-classify''} \<rparr> \<rparr>,
         Inl DatabaseFailure)"
    by blast
  from f v1 a1 m1 l1 t1 g1 v2 a2 m2 l2 t2 g2 v3 a3 m3 l3 t3 g3 c1 c2 c3
  show ?thesis by (intro conjI)
qed

section \<open>Properties of the classify output parser\<close>










lemma parse_classify_loaded_not_json:
  "\<exists>scrs. parse_classify_loaded lib NotJSON (first # rest) = Inr (first, 1 / 2, scrs)"
  by (simp add: parse_classify_loaded_def classify_try_block_def)

lemma parse_classify_loaded_unmatched:
  assumes "to_float lib (dict_get entries ''confidence'' (JFloat (1 / 2))) = Inr parsed"
    and "\<forall>c \<in> set (first # rest).
           str_lower lib c \<noteq> str_lower lib (to_str lib (dict_get entries ''label'' (JString first)))"
  shows "\<exists>scrs. parse_classify_loaded lib (Loaded (JObject entries)) (first # rest)
                 = Inr (first, 1 / 2, scrs)"
proof -
  have "map_of (rev (map (\<lambda>c. (str_lower lib c, c)) (first # rest)))
          (str_lower lib (to_str lib (dict_get entries ''label'' (JString first)))) = None"
    using assms(2) by (simp only: map_of_eq_None_iff) force
  with assms(1) show ?thesis
    by (simp add: parse_classify_loaded_def classify_try_block_def Let_def
             del: rev.simps list.map map_of.simps)
qed

lemma parse_classify_loaded_value_error:
  assumes "map_of entries ''confidence'' = Some (JString s)" and "float_of_str lib s = None"
  shows "parse_classify_loaded lib (Loaded (JObject entries)) (first # rest) = Inl ValueError"
  using assms
  by (simp add: parse_classify_loaded_def classify_try_block_def to_float_def dict_get_def Let_def)

text \<open>
  Claim C5 says that the parser returns normally for every raw output and falls back to
  the first category with confidence 0.5 whenever the output is no structured object or
  its label matches no category. When \<open>json.loads\<close> raises, and when the label matches no
  category, it does (\<open>parse_classify_loaded_not_json\<close>,
  \<open>parse_classify_loaded_unmatched\<close>). When \<open>json.loads\<close> returns a value that is no
  dictionary, here the string \<open>positive\<close>, \<open>data.get\<close> raises \<open>AttributeError\<close>, which
  the \<open>except\<close> clause does not list: the exception leaves the parser. A confidence
  given as a string that is no number leaves it with \<open>ValueError\<close> in the same way
  (\<open>parse_classify_loaded_value_error\<close>).
\<close>

theorem parse_classify_raises_on_non_object:
  "parse_classify_loaded lib (Loaded (JString ''positive'')) [''positive'', ''negative'']
     = Inl AttributeError"
  by (simp add: parse_classify_loaded_def classify_try_block_def)




section \<open>Properties of the model registry\<close>

text \<open>
  A call of \<open>get_or_load\<close> that returned a model has stored it: a later call for the same
  folder returns the same model and does not consult the loader.
\<close>

lemma get_or_load_stores:
  assumes "get_or_load load now reg model_folder = (reg', Inr loaded)"
  shows "registry reg' model_folder = Some loaded"
  using assms
  by (auto simp: get_or_load_def get_lock_def Let_def split: option.splits sum.splits)

lemma get_or_load_cached:
  assumes "get_or_load load now reg model_folder = (reg', Inr loaded)"
  shows "get_or_load load' now' reg' model_folder = (reg', Inr loaded)"
  using get_or_load_stores [OF assms] by (simp add: get_or_load_def)

end
